theory Spec2Isabelle
  imports Main "HOL-Library.Sublist"
begin

section \<open>Characters and strings\<close>

text \<open>
  Python strings are modelled as \<open>string\<close> (lists of 8-bit characters) and read as ASCII
  text: the character classes below are those of Python's \<open>str.isspace\<close>, \<open>str.lower\<close>,
  \<open>str.isupper\<close> and of the regular-expression classes \<open>\s\<close> and \<open>\w\<close> on the code points
  0..127. Characters outside that range have no case and belong to no class here, so the
  model speaks for the program on ASCII utterances and ASCII configuration text.
\<close>

definition ascii_uppers :: string where
  "ascii_uppers = ''ABCDEFGHIJKLMNOPQRSTUVWXYZ''"

definition ascii_lowers :: string where
  "ascii_lowers = ''abcdefghijklmnopqrstuvwxyz''"

definition ascii_digits :: string where
  "ascii_digits = ''0123456789''"

definition isupper :: "char \<Rightarrow> bool" where
  "isupper c = (c \<in> set ascii_uppers)"

definition islower :: "char \<Rightarrow> bool" where
  "islower c = (c \<in> set ascii_lowers)"

text \<open>\<open>str.isspace\<close> and \<open>\s\<close>: tab, line feed, vertical tab, form feed, carriage return,
  the separators 0x1C..0x1F and the space.\<close>

definition isspace :: "char \<Rightarrow> bool" where
  "isspace c = (c \<in> set [CHR 0x09, CHR 0x0A, CHR 0x0B, CHR 0x0C, CHR 0x0D,
                           CHR 0x1C, CHR 0x1D, CHR 0x1E, CHR 0x1F, CHR '' ''])"

text \<open>The class \<open>\w\<close>: letters, digits and the underscore.\<close>

definition is_word_char :: "char \<Rightarrow> bool" where
  "is_word_char c = (isupper c \<or> islower c \<or> c \<in> set ascii_digits \<or> c = CHR ''_'')"

definition lower_char :: "char \<Rightarrow> char" where
  "lower_char c = (case map_of (zip ascii_uppers ascii_lowers) c of Some d \<Rightarrow> d | None \<Rightarrow> c)"

definition upper_char :: "char \<Rightarrow> char" where
  "upper_char c = (case map_of (zip ascii_lowers ascii_uppers) c of Some d \<Rightarrow> d | None \<Rightarrow> c)"

text \<open>\<open>s.lower()\<close>\<close>

definition lower :: "string \<Rightarrow> string" where
  "lower s = map lower_char s"

text \<open>\<open>s.strip()\<close>: leading and trailing whitespace removed.\<close>

definition strip :: "string \<Rightarrow> string" where
  "strip s = rev (dropWhile isspace (rev (dropWhile isspace s)))"

text \<open>\<open>s.title()\<close>: a letter that follows a letter is lower-cased, any other letter is
  upper-cased; the flag says whether the previous character was a letter.\<close>

fun title_from :: "bool \<Rightarrow> string \<Rightarrow> string" where
  "title_from prev [] = []"
| "title_from prev (c # cs) =
     (if isupper c \<or> islower c
      then (if prev then lower_char c else upper_char c) # title_from True cs
      else c # title_from False cs)"

definition title :: "string \<Rightarrow> string" where
  "title s = title_from False s"

text \<open>\<open>s.replace(a, b)\<close> for single characters \<open>a\<close> and \<open>b\<close>.\<close>

definition replace_char :: "char \<Rightarrow> char \<Rightarrow> string \<Rightarrow> string" where
  "replace_char a b s = map (\<lambda>c. if c = a then b else c) s"

text \<open>\<open>s.startswith(p)\<close>\<close>

fun startswith :: "string \<Rightarrow> string \<Rightarrow> bool" where
  "startswith s [] = True"
| "startswith [] (p # ps) = False"
| "startswith (c # cs) (p # ps) = (c = p \<and> startswith cs ps)"

text \<open>\<open>p in s\<close>: \<open>p\<close> occurs in \<open>s\<close> as a contiguous substring.\<close>

fun contains :: "string \<Rightarrow> string \<Rightarrow> bool" where
  "contains [] p = (p = [])"
| "contains (c # cs) p = (startswith (c # cs) p \<or> contains cs p)"

text \<open>\<open>sep.join(xs)\<close>\<close>

fun join :: "string \<Rightarrow> string list \<Rightarrow> string" where
  "join sep [] = []"
| "join sep [x] = x"
| "join sep (x # y # ys) = x @ sep @ join sep (y # ys)"

section \<open>Small helpers of the web application\<close>

text \<open>
  \<^verbatim>\<open>def canon(s): return re.sub(r"[\s_-]+", "", s.strip().lower())\<close>

  Replacing every maximal run of whitespace, underscores and hyphens by the empty string
  deletes exactly those characters.
\<close>

definition is_sep :: "char \<Rightarrow> bool" where
  "is_sep c = (isspace c \<or> c = CHR ''_'' \<or> c = CHR ''-'')"

definition canon :: "string \<Rightarrow> string" where
  "canon s = filter (\<lambda>c. \<not> is_sep c) (lower (strip s))"

text \<open>
  \<^verbatim>\<open>def pretty(label):
    if canon(label) == "visaonarrival": return "Visa on Arrival"
    cleaned = label.replace("_", " ").replace("-", " ").strip()
    return cleaned if any(ch.isupper() for ch in cleaned) else cleaned.title()\<close>
\<close>

definition pretty :: "string \<Rightarrow> string" where
  "pretty label =
     (if canon label = ''visaonarrival'' then ''Visa on Arrival''
      else let cleaned = strip (replace_char CHR ''-'' CHR '' '' (replace_char CHR ''_'' CHR '' '' label))
           in if list_ex isupper cleaned then cleaned else title cleaned)"

section \<open>Dictionaries with insertion order\<close>

text \<open>
  A Python \<open>dict\<close> whose iteration order matters is an association list with distinct
  keys. Storing under an existing key replaces the value in place; a new key goes to the
  end. A JSON object is a list of fields in the same way.
\<close>

type_synonym 'v dict = "(string \<times> 'v) list"

fun dict_set :: "string \<Rightarrow> 'v \<Rightarrow> 'v dict \<Rightarrow> 'v dict" where
  "dict_set k v [] = [(k, v)]"
| "dict_set k v ((k', v') # kvs) =
     (if k' = k then (k, v) # kvs else (k', v') # dict_set k v kvs)"

text \<open>A dict comprehension \<open>{key(x): val(x) for x in xs}\<close> stores the items left to right.\<close>

definition dict_of_items :: "(string \<times> 'v) list \<Rightarrow> 'v dict" where
  "dict_of_items kvs = foldl (\<lambda>d (k, v). dict_set k v d) [] kvs"

definition dict_keys :: "'v dict \<Rightarrow> string list" where
  "dict_keys d = map fst d"

definition dict_get :: "'v dict \<Rightarrow> string \<Rightarrow> 'v option" where
  "dict_get d k = map_of d k"

definition dict_has :: "'v dict \<Rightarrow> string \<Rightarrow> bool" where
  "dict_has d k = (k \<in> set (dict_keys d))"

text \<open>An entry of \<open>visa_types\<close> is a JSON object with string fields; an object is truthy
  when it has a field, a string when it is not empty.\<close>

type_synonym entry = "string dict"

definition truthy_response :: "entry \<Rightarrow> string option" where
  "truthy_response e = (case dict_get e ''response'' of
                          None \<Rightarrow> None
                        | Some r \<Rightarrow> if r = [] then None else Some r)"

section \<open>Visa-type resolution\<close>

text \<open>
  \<^verbatim>\<open>def resolve_visa_type(user_text, visa_types, display_options):
    vt = canon(user_text)
    if vt in visa_types:
        return vt
    for k in visa_types.keys():
        if vt.startswith(k) or k in vt:
            return k
    for disp in display_options:
        dkey = canon(disp)
        if vt == dkey or vt.startswith(dkey) or dkey in vt:
            return dkey
    return None\<close>
\<close>

fun first_key_match :: "string \<Rightarrow> string list \<Rightarrow> string option" where
  "first_key_match vt [] = None"
| "first_key_match vt (k # ks) =
     (if startswith vt k \<or> contains vt k then Some k else first_key_match vt ks)"

fun first_label_match :: "string \<Rightarrow> string list \<Rightarrow> string option" where
  "first_label_match vt [] = None"
| "first_label_match vt (disp # ds) =
     (let dkey = canon disp
      in if vt = dkey \<or> startswith vt dkey \<or> contains vt dkey then Some dkey
         else first_label_match vt ds)"

definition resolve_visa_type :: "string \<Rightarrow> entry dict \<Rightarrow> string list \<Rightarrow> string option" where
  "resolve_visa_type user_text visa_types display_options =
     (let vt = canon user_text
      in if dict_has visa_types vt then Some vt
         else case first_key_match vt (dict_keys visa_types) of
                Some k \<Rightarrow> Some k
              | None \<Rightarrow> first_label_match vt display_options)"

text \<open>
  The resolution ladder as the specification words it, for comparison with the function
  above: an exact key first; else the first key, in mapping order, such that the
  canonical input starts with it or is contained in it; else the same test against the
  canonical display labels; else no match.
\<close>

definition spec_step2 :: "string \<Rightarrow> string \<Rightarrow> bool" where
  "spec_step2 vt k = (prefix k vt \<or> sublist vt k)"

definition resolve_visa_type_spec :: "string \<Rightarrow> entry dict \<Rightarrow> string list \<Rightarrow> string option" where
  "resolve_visa_type_spec user_text visa_types display_options =
     (let vt = canon user_text
      in if vt \<in> set (dict_keys visa_types) then Some vt
         else case find (spec_step2 vt) (dict_keys visa_types) of
                Some k \<Rightarrow> Some k
              | None \<Rightarrow> find (spec_step2 vt) (map canon display_options))"

section \<open>Regular expressions of the program\<close>

text \<open>
  The patterns the program searches for have the shape \<open>\b(a\<^sub>1|...|a\<^sub>n)\b\<close>, where every
  alternative is a sequence of literal characters, optional characters (\<open>c?\<close>) and
  \<open>\s*\<close>. \<open>match_atoms\<close> returns every way an alternative can match at the start of
  the text, as the pair of the last character before the end of the match and the text
  that is left; \<open>ic\<close> is the flag \<open>re.IGNORECASE\<close>.
\<close>

datatype atom = Lit char | Opt char | Spaces

definition lits :: "string \<Rightarrow> atom list" where
  "lits s = map Lit s"

definition char_matches :: "bool \<Rightarrow> char \<Rightarrow> char \<Rightarrow> bool" where
  "char_matches ic c d = (if ic then lower_char c = lower_char d else c = d)"

fun match_atoms :: "bool \<Rightarrow> atom list \<Rightarrow> char option \<Rightarrow> string \<Rightarrow> (char option \<times> string) list" where
  "match_atoms ic [] prev s = [(prev, s)]"
| "match_atoms ic (Lit c # as) prev [] = []"
| "match_atoms ic (Lit c # as) prev (d # ds) =
     (if char_matches ic c d then match_atoms ic as (Some d) ds else [])"
| "match_atoms ic (Opt c # as) prev [] = match_atoms ic as prev []"
| "match_atoms ic (Opt c # as) prev (d # ds) =
     (if char_matches ic c d then match_atoms ic as (Some d) ds else [])
     @ match_atoms ic as prev (d # ds)"
| "match_atoms ic (Spaces # as) prev [] = match_atoms ic as prev []"
| "match_atoms ic (Spaces # as) prev (d # ds) =
     (if isspace d then match_atoms ic (Spaces # as) (Some d) ds else [])
     @ match_atoms ic as prev (d # ds)"

text \<open>\<open>\b\<close> between the character \<open>prev\<close> (if any) and the head of the remaining text (if
  any): exactly one of the two is a word character.\<close>

definition word_boundary :: "char option \<Rightarrow> string \<Rightarrow> bool" where
  "word_boundary prev s =
     ((case prev of None \<Rightarrow> False | Some c \<Rightarrow> is_word_char c)
      \<noteq> (case s of [] \<Rightarrow> False | d # _ \<Rightarrow> is_word_char d))"

definition words_at :: "bool \<Rightarrow> atom list list \<Rightarrow> char option \<Rightarrow> string \<Rightarrow> bool" where
  "words_at ic alts prev s =
     (word_boundary prev s \<and>
      list_ex (\<lambda>a. list_ex (\<lambda>(p, r). word_boundary p r) (match_atoms ic a prev s)) alts)"

text \<open>\<open>re.search\<close> tries every position of the text, the end included.\<close>

fun search_from :: "(char option \<Rightarrow> string \<Rightarrow> bool) \<Rightarrow> char option \<Rightarrow> string \<Rightarrow> bool" where
  "search_from m prev [] = m prev []"
| "search_from m prev (c # cs) = (m prev (c # cs) \<or> search_from m (Some c) cs)"

definition search_words :: "bool \<Rightarrow> atom list list \<Rightarrow> string \<Rightarrow> bool" where
  "search_words ic alts s = search_from (words_at ic alts) None s"

text \<open>
  \<^verbatim>\<open>def is_farewell(text):
    return re.search(r"\b(bye|goodbye|see you|exit|quit)\b", text, re.IGNORECASE) is not None
def is_greeting(text):
    return re.search(r"\b(hi|hello|hey|good day)\b", text, re.IGNORECASE) is not None
def is_thanks(text):
    return re.search(r"\b(thanks?|thank\s*you)\b", text, re.IGNORECASE) is not None\<close>
\<close>

definition is_farewell :: "string \<Rightarrow> bool" where
  "is_farewell s =
     search_words True [lits ''bye'', lits ''goodbye'', lits ''see you'', lits ''exit'', lits ''quit''] s"

definition is_greeting :: "string \<Rightarrow> bool" where
  "is_greeting s =
     search_words True [lits ''hi'', lits ''hello'', lits ''hey'', lits ''good day''] s"

definition is_thanks :: "string \<Rightarrow> bool" where
  "is_thanks s =
     search_words True [lits ''thank'' @ [Opt CHR ''s''], lits ''thank'' @ [Spaces] @ lits ''you''] s"

text \<open>The pattern of the command-line follow-up: \<open>\b(yes|yep|yeah|sure|of course)\b\<close>,
  ignoring case.\<close>

definition is_affirmative :: "string \<Rightarrow> bool" where
  "is_affirmative s =
     search_words True [lits ''yes'', lits ''yep'', lits ''yeah'', lits ''sure'', lits ''of course''] s"

text \<open>
  \<^verbatim>\<open>def match_country(text, countries):
    low = re.sub(r"[^\w\s]", " ", text.lower())
    for c in countries.keys():
        if re.search(rf"\b{re.escape(c)}\b", low):
            return c
    return None\<close>
\<close>

definition punct_to_space :: "string \<Rightarrow> string" where
  "punct_to_space s = map (\<lambda>c. if is_word_char c \<or> isspace c then c else CHR '' '') s"

fun first_country :: "string \<Rightarrow> string list \<Rightarrow> string option" where
  "first_country low [] = None"
| "first_country low (c # cs) =
     (if search_words False [lits c] low then Some c else first_country low cs)"

definition match_country :: "string \<Rightarrow> bool dict \<Rightarrow> string option" where
  "match_country s countries = first_country (punct_to_space (lower s)) (dict_keys countries)"

text \<open>
  \<^verbatim>\<open>re.sub(r"\)\s*\([^()]*\)\s*$", ")", ask)\<close>: a match starts at a closing parenthesis
  and runs to the end of the string, so at most one match exists; it is replaced by one
  closing parenthesis.
\<close>

definition not_paren :: "char \<Rightarrow> bool" where
  "not_paren c = (c \<noteq> CHR ''('' \<and> c \<noteq> CHR '')'')"

definition duplicate_list_here :: "string \<Rightarrow> bool" where
  "duplicate_list_here s =
     (case s of
        [] \<Rightarrow> False
      | c # r1 \<Rightarrow> c = CHR '')'' \<and>
          (case dropWhile isspace r1 of
             [] \<Rightarrow> False
           | d # r2 \<Rightarrow> d = CHR ''('' \<and>
               (case dropWhile not_paren r2 of
                  [] \<Rightarrow> False
                | e # r3 \<Rightarrow> e = CHR '')'' \<and> list_all isspace r3)))"

fun drop_duplicate_list :: "string \<Rightarrow> string" where
  "drop_duplicate_list [] = []"
| "drop_duplicate_list (c # cs) =
     (if duplicate_list_here (c # cs) then '')'' else c # drop_duplicate_list cs)"

section \<open>Configuration and the data derived from it\<close>

text \<open>
  The configuration document: \<open>prompts\<close> (string-valued prompts by name, and the list
  \<open>visa_type_options\<close>, which may be absent), \<open>country_check.countries\<close> and \<open>visa_types\<close>.
\<close>

record country =
  name :: string
  visa_required :: bool

record config =
  cfg_prompts :: "string \<rightharpoonup> string"
  cfg_visa_type_options :: "string list option"
  cfg_countries :: "country list"
  cfg_visa_types :: "entry dict"

text \<open>Exceptions that the modelled code can raise. \<open>OtherField\<close> is the answer of the
  reference model of \<open>str.format\<close> below to a replacement field it does not cover.\<close>

datatype py_error = KeyError | ValueError | OtherField

text \<open>
  The module-level data of the web application:
  \<^verbatim>\<open>country_map = {c["name"].strip().lower(): bool(c["visa_required"]) for c in ...}
visa_types = {canon(k): v for k, v in visa_types_raw.items()}
prompt_opts = [pretty(x) for x in config.get("prompts", {}).get("visa_type_options", [])]
schema_opts = [pretty(k) for k in visa_types_raw.keys()]
seen, friendly_options = set(), []
for opt in prompt_opts + schema_opts:
    key = canon(opt)
    if key not in seen:
        seen.add(key)
        friendly_options.append(opt)
display_options = [o for o in friendly_options if canon(o) != "general"]
options_str_display = ", ".join(display_options)\<close>
\<close>

record env =
  prompts :: "string \<rightharpoonup> string"
  country_map :: "bool dict"
  visa_types :: "entry dict"
  display_options :: "string list"
  options_str_display :: string

fun dedup_options :: "string list \<Rightarrow> string list \<Rightarrow> string list" where
  "dedup_options seen [] = []"
| "dedup_options seen (opt # opts) =
     (let key = canon opt
      in if key \<in> set seen then dedup_options seen opts
         else opt # dedup_options (key # seen) opts)"

definition env_of :: "config \<Rightarrow> env" where
  "env_of cfg =
     (let prompt_opts = map pretty (case cfg_visa_type_options cfg of None \<Rightarrow> [] | Some xs \<Rightarrow> xs);
          schema_opts = map pretty (dict_keys (cfg_visa_types cfg));
          friendly_options = dedup_options [] (prompt_opts @ schema_opts);
          disp = filter (\<lambda>x. canon x \<noteq> ''general'') friendly_options
      in \<lparr> prompts = cfg_prompts cfg,
           country_map = dict_of_items (map (\<lambda>c. (lower (strip (name c)), visa_required c)) (cfg_countries cfg)),
           visa_types = dict_of_items (map (\<lambda>(k, v). (canon k, v)) (cfg_visa_types cfg)),
           display_options = disp,
           options_str_display = join '', '' disp \<rparr>)"

text \<open>
  \<open>ask_tmpl.format(visa_type_options=options_str_display)\<close> is a call of the Python
  library; the handler below takes it as the parameter \<open>fmt\<close>. \<open>format_options\<close> is a
  reference model for templates whose replacement fields are all the plain field
  \<open>{visa_type_options}\<close>: it copies the text, turns \<open>{{\<close> and \<open>}}\<close> into single braces,
  substitutes the field, and raises \<open>ValueError\<close> on a single brace.
\<close>

function format_options :: "string \<Rightarrow> string \<Rightarrow> py_error + string" where
  "format_options [] opts = Inr []"
| "format_options (c # cs) opts =
     (if c = CHR ''{'' then
        (if startswith cs ''{'' then map_sum id ((#) CHR ''{'') (format_options (drop 1 cs) opts)
         else if startswith cs ''visa_type_options}''
              then map_sum id ((@) opts) (format_options (drop 18 cs) opts)
         else if cs = [] then Inl ValueError
         else Inl OtherField)
      else if c = CHR ''}'' then
        (if startswith cs ''}'' then map_sum id ((#) CHR ''}'') (format_options (drop 1 cs) opts)
         else Inl ValueError)
      else map_sum id ((#) c) (format_options cs opts))"
  by pat_completeness auto
termination
  by (relation "measure (\<lambda>(t, opts). length t)") auto

section \<open>The session of the web application\<close>

datatype state = ASK_COUNTRY | ASK_VISA_TYPE | END

datatype speaker = Bot | You

text \<open>The fields of \<open>st.session_state\<close> that the conversation reads and writes; the three
  analytics fields are the entries of the \<open>analytics\<close> dictionary.\<close>

record session =
  state :: state
  history :: "(speaker \<times> string) list"
  current_country :: "string option"
  last_downloadable :: string
  analytics_countries :: "string list"
  analytics_visa_required :: nat
  analytics_visa_free :: nat

text \<open>A run of the script either finishes or raises; either way the session is left as
  the run has changed it so far.\<close>

datatype run = Done session | Raised py_error session

fun session_of :: "run \<Rightarrow> session" where
  "session_of (Done s) = s"
| "session_of (Raised e s) = s"

definition say :: "speaker \<Rightarrow> string \<Rightarrow> session \<Rightarrow> session" where
  "say who msg s = s\<lparr>history := history s @ [(who, msg)]\<rparr>"

text \<open>The values of \<open>setdefault\<close> at the first run of the script.\<close>

definition fresh_session :: session where
  "fresh_session = \<lparr> state = ASK_COUNTRY, history = [], current_country = None,
                      last_downloadable = [], analytics_countries = [],
                      analytics_visa_required = 0, analytics_visa_free = 0 \<rparr>"

text \<open>
  \<^verbatim>\<open>def reset_chat():
    st.session_state.state = "ASK_COUNTRY"
    st.session_state.history = seed_welcome()
    st.session_state.current_country = None
    ...\<close>
  where \<open>seed_welcome\<close> reads \<open>config["prompts"]["welcome"]\<close> and
  \<open>config["prompts"]["ask_country"]\<close>.
\<close>

definition reset_chat :: "env \<Rightarrow> session \<Rightarrow> run" where
  "reset_chat E s =
     (let s1 = s\<lparr>state := ASK_COUNTRY\<rparr>
      in case prompts E ''welcome'' of
           None \<Rightarrow> Raised KeyError s1
         | Some w \<Rightarrow>
             (case prompts E ''ask_country'' of
                None \<Rightarrow> Raised KeyError s1
              | Some a \<Rightarrow>
                  Done (s1\<lparr>history := [(Bot, w), (Bot, a)], current_country := None,
                           last_downloadable := [], analytics_countries := [],
                           analytics_visa_required := 0, analytics_visa_free := 0\<rparr>)))"

section \<open>The message handler of the web application\<close>

definition newline :: string where
  "newline = [CHR 0x0A]"

definition apostrophe :: string where
  "apostrophe = [CHR 0x27]"

text \<open>The em dash of the program's literals, in UTF-8.\<close>

definition em_dash :: string where
  "em_dash = [CHR 0xE2, CHR 0x80, CHR 0x94]"

definition thanks_reply :: string where
  "thanks_reply = ''You'' @ apostrophe @ ''re welcome! Have an amazing time in Nigeria!''"

definition default_visa_free_msg :: string where
  "default_visa_free_msg = ''Excellent'' @ em_dash @ ''you do not need a visa to visit Nigeria.''"

definition default_ask_visa_type :: string where
  "default_ask_visa_type =
     ''Great! You need a visa to visit Nigeria. Which visa type are you interested in?''"

definition default_fallback_country :: string where
  "default_fallback_country =
     ''Sorry, I didn'' @ apostrophe @ ''t recognize that country. Please tell me which country you''
     @ apostrophe @ ''re from.''"

definition default_fallback_visa_type :: "string \<Rightarrow> string \<Rightarrow> string" where
  "default_fallback_visa_type txt opts =
     ''Sorry, I don'' @ apostrophe @ ''t have details for '' @ apostrophe @ txt @ apostrophe
     @ ''. Options: '' @ opts @ ''.''"

definition nudge :: "string \<Rightarrow> string \<Rightarrow> string" where
  "nudge current_disp opts =
     ''We'' @ apostrophe @ ''re already discussing **'' @ current_disp
     @ ''**. Please choose a visa type ('' @ opts @ '') or ask about another country.''"

text \<open>\<open>config["prompts"].get(k, d)\<close>\<close>

definition prompt_or :: "env \<Rightarrow> string \<Rightarrow> string \<Rightarrow> string" where
  "prompt_or E k d = (case prompts E k of None \<Rightarrow> d | Some v \<Rightarrow> v)"

text \<open>Python's truth value of an optional string: \<open>None\<close> and the empty string are false.\<close>

definition truthy :: "string option \<Rightarrow> string option" where
  "truthy x = (case x of None \<Rightarrow> None | Some v \<Rightarrow> if v = [] then None else Some v)"

text \<open>\<^verbatim>\<open>found = key if key in country_map else match_country(text, country_map)\<close>\<close>

definition find_country :: "env \<Rightarrow> string \<Rightarrow> string option" where
  "find_country E txt =
     (let key = lower txt
      in if dict_has (country_map E) key then Some key else match_country txt (country_map E))"

text \<open>
  The answer to a matched country (the same statements stand in the branch for
  \<open>ASK_COUNTRY\<close>/\<open>END\<close> and in the branch for \<open>ASK_VISA_TYPE\<close>):
  \<^verbatim>\<open>country_disp = found.title()
st.session_state.current_country = country_disp
st.session_state.analytics["countries"].append(found)
if not country_map[found]:
    vf = config["prompts"].get("visa_free_msg", "Excellent...")
    st.session_state.history.append(("Bot", f"For {country_disp}, {vf}"))
    st.session_state.analytics["visa_free"] += 1
    st.session_state.state = "END"
else:
    ask_tmpl = config["prompts"].get("ask_visa_type", "Great! ...")
    if "{visa_type_options}" in ask_tmpl:
        ask = ask_tmpl.format(visa_type_options=options_str_display)
    else:
        ask = f"{ask_tmpl} ({options_str_display})"
    ask = re.sub(r"\)\s*\([^()]*\)\s*$", ")", ask)
    ask = f"For {country_disp}, {ask}"
    st.session_state.history.append(("Bot", ask))
    st.session_state.analytics["visa_required"] += 1
    st.session_state.state = "ASK_VISA_TYPE"\<close>
\<close>

definition visa_free_reply :: "env \<Rightarrow> string \<Rightarrow> string" where
  "visa_free_reply E country_disp =
     ''For '' @ country_disp @ '', '' @ prompt_or E ''visa_free_msg'' default_visa_free_msg"

definition ask_text :: "(string \<Rightarrow> string \<Rightarrow> py_error + string) \<Rightarrow> env \<Rightarrow> py_error + string" where
  "ask_text fmt E =
     (let ask_tmpl = prompt_or E ''ask_visa_type'' default_ask_visa_type
      in if contains ask_tmpl ''{visa_type_options}'' then fmt ask_tmpl (options_str_display E)
         else Inr (ask_tmpl @ '' ('' @ options_str_display E @ '')''))"

definition ask_reply :: "string \<Rightarrow> string \<Rightarrow> string" where
  "ask_reply country_disp ask = ''For '' @ country_disp @ '', '' @ drop_duplicate_list ask"

definition answer_country ::
  "(string \<Rightarrow> string \<Rightarrow> py_error + string) \<Rightarrow> env \<Rightarrow> session \<Rightarrow> string \<Rightarrow> run" where
  "answer_country fmt E s found =
     (let country_disp = title found;
          s1 = s\<lparr>current_country := Some country_disp,
                  analytics_countries := analytics_countries s @ [found]\<rparr>
      in case dict_get (country_map E) found of
           None \<Rightarrow> Raised KeyError s1
         | Some required \<Rightarrow>
             if \<not> required then
               Done ((say Bot (visa_free_reply E country_disp) s1)
                       \<lparr>analytics_visa_free := analytics_visa_free s1 + 1, state := END\<rparr>)
             else
               (case ask_text fmt E of
                  Inl e \<Rightarrow> Raised e s1
                | Inr ask \<Rightarrow>
                    Done ((say Bot (ask_reply country_disp ask) s1)
                            \<lparr>analytics_visa_required := analytics_visa_required s1 + 1,
                             state := ASK_VISA_TYPE\<rparr>)))"

text \<open>
  The answer to a visa-type choice (typed, or clicked as a chip; the dash of the header
  is an em dash):
  \<^verbatim>\<open>vt_key = resolve_visa_type(text, visa_types, display_options)
details = visa_types.get(vt_key) if vt_key else None
general = visa_types.get("general")
country_disp = st.session_state.get("current_country", "your country")
if details:
    header = f"**For {country_disp} - here are the requirements:**\n"
    general_md = f"##### General requirements\n{general['response']}" if general and general.get("response") else ""
    specific_md = f"\n\n##### {pretty(vt_key)} visa\n{details['response']}" if details.get("response") else ""
    reply = header + general_md + specific_md if (general_md or specific_md) else f"For {country_disp}, no details available."
    st.session_state.history.append(("Bot", reply))
    st.session_state.last_downloadable = reply
    st.session_state.state = "END"
else:
    st.session_state.history.append(("Bot", config["prompts"].get("fallback_visa_type",
        f"Sorry, I don't have details for '{text}'. Options: {options_str_display}.")))\<close>
  The key \<open>current_country\<close> is always present in the session, so the default
  \<open>"your country"\<close> is never taken and an unset country is formatted as \<open>None\<close>.
\<close>

definition disp_of :: "string option \<Rightarrow> string" where
  "disp_of cc = (case cc of None \<Rightarrow> ''None'' | Some c \<Rightarrow> c)"

definition lookup_details :: "env \<Rightarrow> string \<Rightarrow> (string \<times> entry) option" where
  "lookup_details E txt =
     (case truthy (resolve_visa_type txt (visa_types E) (display_options E)) of
        None \<Rightarrow> None
      | Some vt_key \<Rightarrow>
          (case dict_get (visa_types E) vt_key of
             None \<Rightarrow> None
           | Some details \<Rightarrow> if details = [] then None else Some (vt_key, details)))"

definition general_md :: "env \<Rightarrow> string" where
  "general_md E =
     (case dict_get (visa_types E) ''general'' of
        None \<Rightarrow> []
      | Some general \<Rightarrow>
          (case truthy_response general of
             None \<Rightarrow> []
           | Some r \<Rightarrow> ''##### General requirements'' @ newline @ r))"

definition specific_md :: "string \<Rightarrow> entry \<Rightarrow> string" where
  "specific_md vt_key details =
     (case truthy_response details of
        None \<Rightarrow> []
      | Some r \<Rightarrow> newline @ newline @ ''##### '' @ pretty vt_key @ '' visa'' @ newline @ r)"

definition compose_reply :: "env \<Rightarrow> string \<Rightarrow> string \<Rightarrow> entry \<Rightarrow> string" where
  "compose_reply E country_disp vt_key details =
     (let header = ''**For '' @ country_disp @ '' '' @ em_dash @ '' here are the requirements:**'' @ newline
      in if general_md E \<noteq> [] \<or> specific_md vt_key details \<noteq> []
         then header @ general_md E @ specific_md vt_key details
         else ''For '' @ country_disp @ '', no details available.'')"

definition fallback_visa_type_reply :: "env \<Rightarrow> string \<Rightarrow> string" where
  "fallback_visa_type_reply E txt =
     prompt_or E ''fallback_visa_type'' (default_fallback_visa_type txt (options_str_display E))"

definition answer_visa_type :: "env \<Rightarrow> session \<Rightarrow> string \<Rightarrow> session" where
  "answer_visa_type E s txt =
     (let country_disp = disp_of (current_country s)
      in case lookup_details E txt of
           Some (vt_key, details) \<Rightarrow>
             (let reply = compose_reply E country_disp vt_key details
              in (say Bot reply s)\<lparr>last_downloadable := reply, state := END\<rparr>)
         | None \<Rightarrow> say Bot (fallback_visa_type_reply E txt) s)"

text \<open>
  The handler for typed input. \<open>txt\<close> is the submitted text after \<open>strip()\<close>, not empty.
  \<^verbatim>\<open>text = incoming_text
key = text.lower()
st.session_state.history.append(("You", text))
if is_thanks(text):
    st.session_state.history.append(("Bot", "You're welcome! Have an amazing time in Nigeria!"))
    st.session_state.state = "END"
elif is_farewell(text):
    st.session_state.history.append(("Bot", config["prompts"]["goodbye"]))
    st.session_state.state = "END"
elif st.session_state.state in ("ASK_COUNTRY", "END"):
    if is_greeting(text):
        st.session_state.history.append(("Bot", config["prompts"]["ask_country"]))
        st.session_state.state = "ASK_COUNTRY"
    else:
        found = key if key in country_map else match_country(text, country_map)
        if found:
            ... (the answer to a matched country)
        else:
            st.session_state.history.append(("Bot", config["prompts"].get("fallback_country", "Sorry, ...")))
            st.session_state.state = "ASK_COUNTRY"
elif st.session_state.state == "ASK_VISA_TYPE":
    new_found = (key if key in country_map else match_country(text, country_map))
    if new_found:
        current_disp = st.session_state.get("current_country") or ""
        if canon(new_found) == canon(current_disp):
            st.session_state.history.append(("Bot", f"We're already discussing **{current_disp}**. ..."))
        else:
            ... (the answer to a matched country)
    else:
        ... (the answer to a visa-type choice)\<close>
\<close>

definition handle_text ::
  "(string \<Rightarrow> string \<Rightarrow> py_error + string) \<Rightarrow> env \<Rightarrow> session \<Rightarrow> string \<Rightarrow> run" where
  "handle_text fmt E s txt =
     (let s0 = say You txt s
      in if is_thanks txt then Done ((say Bot thanks_reply s0)\<lparr>state := END\<rparr>)
         else if is_farewell txt then
           (case prompts E ''goodbye'' of
              None \<Rightarrow> Raised KeyError s0
            | Some goodbye \<Rightarrow> Done ((say Bot goodbye s0)\<lparr>state := END\<rparr>))
         else if state s0 = ASK_COUNTRY \<or> state s0 = END then
           (if is_greeting txt then
              (case prompts E ''ask_country'' of
                 None \<Rightarrow> Raised KeyError s0
               | Some ask_country \<Rightarrow> Done ((say Bot ask_country s0)\<lparr>state := ASK_COUNTRY\<rparr>))
            else
              (case truthy (find_country E txt) of
                 Some found \<Rightarrow> answer_country fmt E s0 found
               | None \<Rightarrow>
                   Done ((say Bot (prompt_or E ''fallback_country'' default_fallback_country) s0)
                           \<lparr>state := ASK_COUNTRY\<rparr>)))
         else if state s0 = ASK_VISA_TYPE then
           (case truthy (find_country E txt) of
              Some new_found \<Rightarrow>
                (let current_disp = (case current_country s0 of None \<Rightarrow> [] | Some c \<Rightarrow> c)
                 in if canon new_found = canon current_disp
                    then Done (say Bot (nudge current_disp (options_str_display E)) s0)
                    else answer_country fmt E s0 new_found)
            | None \<Rightarrow> Done (answer_visa_type E s0 txt))
         else Done s0)"

text \<open>
  \<^verbatim>\<open>incoming_text = user_text.strip() if submitted and user_text else None
if incoming_text: ...\<close>
  A submission that is blank after stripping runs no handler.
\<close>

definition submit ::
  "(string \<Rightarrow> string \<Rightarrow> py_error + string) \<Rightarrow> env \<Rightarrow> session \<Rightarrow> string \<Rightarrow> run" where
  "submit fmt E s user_text =
     (let incoming_text = strip user_text
      in if incoming_text = [] then Done s else handle_text fmt E s incoming_text)"

text \<open>A click on a quick-reply chip: the chips are shown in state \<open>ASK_VISA_TYPE\<close>, one
  for each display option, and the clicked label is answered as a visa-type choice.\<close>

definition click_chip :: "env \<Rightarrow> session \<Rightarrow> string \<Rightarrow> session" where
  "click_chip E s label =
     (if state s = ASK_VISA_TYPE \<and> label \<in> set (display_options E) \<and> label \<noteq> []
      then answer_visa_type E (say You label s) label
      else s)"

text \<open>The sessions that a conversation can reach: from the reset of a fresh session, by
  typed submissions, chip clicks and the "New chat" button.\<close>

inductive reachable ::
  "(string \<Rightarrow> string \<Rightarrow> py_error + string) \<Rightarrow> env \<Rightarrow> session \<Rightarrow> bool"
  for fmt :: "string \<Rightarrow> string \<Rightarrow> py_error + string" and E :: env where
  start: "reachable fmt E (session_of (reset_chat E fresh_session))"
| typed: "reachable fmt E s \<Longrightarrow> reachable fmt E (session_of (submit fmt E s user_text))"
| chip: "reachable fmt E s \<Longrightarrow> reachable fmt E (click_chip E s label)"
| new_chat: "reachable fmt E s \<Longrightarrow> reachable fmt E (session_of (reset_chat E s))"

section \<open>The command-line interface\<close>

text \<open>
  The fields of \<open>ChatCLI\<close>:
  \<^verbatim>\<open>self.prompts = config.get('prompts', {})
self.country_map = {c['name'].strip().lower(): c['visa_required'] for c in ...}
self.visa_types = config.get('visa_types', {})
self.visa_type_map = {k.lower(): v for k, v in self.visa_types.items()}
self.opts = ', '.join(self.prompts.get('visa_type_options', list(self.visa_types.keys())))
self.state = 'ASK_COUNTRY'\<close>
\<close>

record chat_cli =
  self_prompts :: "string \<rightharpoonup> string"
  self_country_map :: "bool dict"
  self_visa_type_map :: "entry dict"
  self_opts :: string
  self_state :: state

definition chat_cli_init :: "config \<Rightarrow> chat_cli" where
  "chat_cli_init cfg =
     \<lparr> self_prompts = cfg_prompts cfg,
       self_country_map =
         dict_of_items (map (\<lambda>c. (lower (strip (name c)), visa_required c)) (cfg_countries cfg)),
       self_visa_type_map = dict_of_items (map (\<lambda>(k, v). (lower k, v)) (cfg_visa_types cfg)),
       self_opts = join '', '' (case cfg_visa_type_options cfg of
                                  None \<Rightarrow> dict_keys (cfg_visa_types cfg)
                                | Some xs \<Rightarrow> xs),
       self_state = ASK_COUNTRY \<rparr>"

definition cli_prompt :: "chat_cli \<Rightarrow> string \<Rightarrow> string \<Rightarrow> string" where
  "cli_prompt self k d = (case self_prompts self k of None \<Rightarrow> d | Some v \<Rightarrow> v)"

definition cli_default_goodbye :: string where
  "cli_default_goodbye = ''Thank you'' @ em_dash @ ''hope I helped. Goodbye!''"

definition cli_visa_free :: string where
  "cli_visa_free = ''Excellent, you do not need a visa to visit Nigeria. ''"

definition cli_default_ask_visa_type :: "string \<Rightarrow> string" where
  "cli_default_ask_visa_type opts =
     ''Great! You need a visa to visit Nigeria. Which visa type are you interested in? (''
     @ opts @ '')''"

definition cli_default_fallback_country :: string where
  "cli_default_fallback_country =
     ''Sorry, I didn'' @ apostrophe @ ''t recognize that country. Please try again.''"

definition cli_default_ask_country :: string where
  "cli_default_ask_country = ''Please tell me which country you'' @ apostrophe @ ''re from.''"

definition cli_not_understood :: string where
  "cli_not_understood = ''Sorry, I didn'' @ apostrophe @ ''t understand that.''"

text \<open>
  \<^verbatim>\<open>def respond(self, user_input):
    text = user_input.strip()
    key = text.lower()
    if re.search(r"\b(bye|goodbye|see you|exit|quit)\b", text, re.IGNORECASE):
        return self.prompts.get('goodbye', ...)
    if self.state == 'ASK_COUNTRY':
        if key in self.country_map:
            if not self.country_map[key]:
                self.state = 'END'
                return "Excellent, you do not need a visa to visit Nigeria. " + self.prompts.get('ask_more', '')
            else:
                self.state = 'ASK_VISA_TYPE'
                return self.prompts.get('ask_visa_type', f"Great! ... ({self.opts})")
        return self.prompts.get('fallback_country', ...)
    if self.state == 'ASK_VISA_TYPE':
        vt_key = text.lower()
        if 'option' in vt_key:
            return f"Available visa types: {self.opts}"
        details = self.visa_type_map.get(vt_key)
        self.state = 'END'
        if details:
            return details['response'] + "\n" + self.prompts.get('ask_more', '')
        return self.prompts.get('fallback_visa_type', f"Sorry, I don't have details for '{text}'. Options: {self.opts}.")
    if self.state == 'END':
        if re.search(r"\b(yes|yep|yeah|sure|of course)\b", text, re.IGNORECASE):
            self.state = 'ASK_COUNTRY'
            return self.prompts.get('ask_country', ...)
        return self.prompts.get('goodbye', ...)
    return self.prompts.get('fallback_country', ...)\<close>
  The result is the object after the call and the returned reply, or the exception.
\<close>

definition respond :: "chat_cli \<Rightarrow> string \<Rightarrow> chat_cli \<times> (py_error + string)" where
  "respond self user_input =
     (let txt = strip user_input; key = lower txt
      in if is_farewell txt then (self, Inr (cli_prompt self ''goodbye'' cli_default_goodbye))
         else if self_state self = ASK_COUNTRY then
           (if dict_has (self_country_map self) key then
              (case dict_get (self_country_map self) key of
                 None \<Rightarrow> (self, Inl KeyError)
               | Some required \<Rightarrow>
                   if \<not> required
                   then (self\<lparr>self_state := END\<rparr>,
                         Inr (cli_visa_free @ cli_prompt self ''ask_more'' []))
                   else (self\<lparr>self_state := ASK_VISA_TYPE\<rparr>,
                         Inr (cli_prompt self ''ask_visa_type''
                                (cli_default_ask_visa_type (self_opts self)))))
            else (self, Inr (cli_prompt self ''fallback_country'' cli_default_fallback_country)))
         else if self_state self = ASK_VISA_TYPE then
           (let vt_key = lower txt
            in if contains vt_key ''option''
               then (self, Inr (''Available visa types: '' @ self_opts self))
               else
                 (let details = dict_get (self_visa_type_map self) vt_key;
                      self1 = self\<lparr>self_state := END\<rparr>;
                      fallback = cli_prompt self ''fallback_visa_type''
                                   (default_fallback_visa_type txt (self_opts self))
                  in case details of
                       None \<Rightarrow> (self1, Inr fallback)
                     | Some d \<Rightarrow>
                         if d = [] then (self1, Inr fallback)
                         else (case dict_get d ''response'' of
                                 None \<Rightarrow> (self1, Inl KeyError)
                               | Some r \<Rightarrow>
                                   (self1, Inr (r @ newline @ cli_prompt self ''ask_more'' [])))))
         else if self_state self = END then
           (if is_affirmative txt
            then (self\<lparr>self_state := ASK_COUNTRY\<rparr>,
                  Inr (cli_prompt self ''ask_country'' cli_default_ask_country))
            else (self, Inr (cli_prompt self ''goodbye'' cli_default_goodbye)))
         else (self, Inr (cli_prompt self ''fallback_country'' cli_not_understood)))"

section \<open>The invariant of the session, and a sample configuration\<close>

text \<open>In state \<open>ASK_VISA_TYPE\<close> the session names a current country.\<close>

definition has_country :: "session \<Rightarrow> bool" where
  "has_country s = (case current_country s of None \<Rightarrow> False | Some c \<Rightarrow> c \<noteq> [])"

definition country_invariant :: "session \<Rightarrow> bool" where
  "country_invariant s = (state s \<noteq> ASK_VISA_TYPE \<or> has_country s)"

text \<open>
  A small configuration on which the theorems below are run: Ghana needs no visa, Iran
  does; the visa type \<open>business\<close> has no \<open>response\<close> field, and the option \<open>Student\<close>
  has no entry among the visa types. The sessions are the reset
  session, the session after the utterance \<open>Iran\<close> and the session after \<open>Ghana\<close>.
\<close>

definition sample_config :: config where
  "sample_config =
     \<lparr> cfg_prompts = map_of
         [(''welcome'', ''Welcome''), (''ask_country'', ''Which country?''),
          (''goodbye'', ''Goodbye!''),
          (''ask_visa_type'', ''Which visa type? ({visa_type_options})''),
          (''fallback_country'', ''Unknown country''),
          (''fallback_visa_type'', ''Unknown visa type''),
          (''visa_free_msg'', ''no visa needed.'')],
       cfg_visa_type_options = Some [''Tourist'', ''Business'', ''Student''],
       cfg_countries = [\<lparr>name = ''Ghana'', visa_required = False\<rparr>,
                        \<lparr>name = ''Iran'', visa_required = True\<rparr>],
       cfg_visa_types =
         [(''tourist'', [(''response'', ''Tourist info'')]),
          (''business'', [(''fee'', ''100'')]),
          (''general'', [(''response'', ''Passport'')]),
          (''visa-on-arrival'', [(''response'', ''VoA'')])] \<rparr>"

definition sample_env :: env where
  "sample_env = env_of sample_config"

definition sample_start :: session where
  "sample_start = session_of (reset_chat sample_env fresh_session)"

definition sample_asking :: session where
  "sample_asking = session_of (submit format_options sample_env sample_start ''Iran'')"

definition sample_ended :: session where
  "sample_ended = session_of (submit format_options sample_env sample_start ''Ghana'')"

definition sample_cli :: chat_cli where
  "sample_cli = chat_cli_init sample_config"

definition sample_cli_asking :: chat_cli where
  "sample_cli_asking = sample_cli\<lparr>self_state := ASK_VISA_TYPE\<rparr>"

definition sample_cli_ended :: chat_cli where
  "sample_cli_ended = sample_cli\<lparr>self_state := END\<rparr>"

section \<open>Facts about strings\<close>

lemma startswith_prefix: "startswith s p \<longleftrightarrow> prefix p s"
  by (induction s p rule: startswith.induct) auto

lemma contains_sublist: "contains s p \<longleftrightarrow> sublist p s"
  by (induction s) (auto simp: startswith_prefix sublist_Cons_right)

lemma lower_upper_char [simp]: "lower_char (upper_char c) = lower_char c"
  by (auto simp: lower_char_def upper_char_def ascii_uppers_def ascii_lowers_def
           split: option.splits if_splits)

lemma lower_lower_char [simp]: "lower_char (lower_char c) = lower_char c"
  by (auto simp: lower_char_def ascii_uppers_def ascii_lowers_def split: option.splits if_splits)

lemma lower_title_from: "lower (title_from b s) = lower s"
  by (induction s arbitrary: b) (simp_all add: lower_def)

lemma title_Nil [simp]: "title s = [] \<longleftrightarrow> s = []"
  by (cases s) (simp_all add: title_def)

lemma filter_dropWhile_sep:
  "filter (\<lambda>c. \<not> is_sep c) (dropWhile isspace s) = filter (\<lambda>c. \<not> is_sep c) s"
  by (induction s) (auto simp: is_sep_def)

lemma filter_strip_sep: "filter (\<lambda>c. \<not> is_sep c) (strip s) = filter (\<lambda>c. \<not> is_sep c) s"
proof -
  have "filter (\<lambda>c. \<not> is_sep c) (strip s)
          = rev (filter (\<lambda>c. \<not> is_sep c) (dropWhile isspace (rev (dropWhile isspace s))))"
    by (simp add: strip_def rev_filter)
  also have "\<dots> = rev (filter (\<lambda>c. \<not> is_sep c) (rev (dropWhile isspace s)))"
    by (simp only: filter_dropWhile_sep)
  also have "\<dots> = filter (\<lambda>c. \<not> is_sep c) (dropWhile isspace s)"
    by (simp add: rev_filter)
  finally show ?thesis by (simp only: filter_dropWhile_sep)
qed

text \<open>Canonicalisation does not need the \<open>strip\<close>: whitespace is deleted anyway.\<close>

lemma is_sep_lower_char [simp]: "is_sep (lower_char c) = is_sep c"
  by (auto simp: is_sep_def isspace_def lower_char_def ascii_uppers_def ascii_lowers_def
           split: option.splits if_splits)

lemma canon_filter_lower: "canon s = filter (\<lambda>c. \<not> is_sep c) (lower s)"
proof -
  have "canon s = lower (filter (\<lambda>c. \<not> is_sep c) (strip s))"
    by (simp add: canon_def lower_def filter_map comp_def)
  also have "\<dots> = lower (filter (\<lambda>c. \<not> is_sep c) s)"
    by (simp only: filter_strip_sep)
  finally show ?thesis
    by (simp add: lower_def filter_map comp_def)
qed

lemma canon_title: "canon (title s) = canon s"
  by (simp add: canon_filter_lower title_def lower_title_from)

lemma truthy_Some: "truthy x = Some v \<Longrightarrow> v \<noteq> []"
  by (auto simp: truthy_def split: option.splits if_splits)


section \<open>Visa-type resolution: the ladder and its insensitivity\<close>

lemma first_key_match_find:
  "first_key_match vt ks = find (\<lambda>k. prefix k vt \<or> sublist k vt) ks"
  by (induction ks) (auto simp: startswith_prefix contains_sublist)

lemma first_label_match_find:
  "first_label_match vt ds
     = find (\<lambda>d. d = vt \<or> prefix d vt \<or> sublist d vt) (map canon ds)"
  by (induction ds) (auto simp: startswith_prefix contains_sublist Let_def)

text \<open>
  C3, as the code has it: an exact key first; else the first key, in mapping order, that
  the canonical input starts with or contains; else the canonical form of the first
  display label that equals the canonical input, or that the input starts with or
  contains; else no match.
\<close>

theorem resolve_visa_type_ladder:
  "resolve_visa_type user_text vts opts =
     (let vt = canon user_text; ks = dict_keys vts
      in if vt \<in> set ks then Some vt
         else case find (\<lambda>k. prefix k vt \<or> sublist k vt) ks of
                Some k \<Rightarrow> Some k
              | None \<Rightarrow> find (\<lambda>d. d = vt \<or> prefix d vt \<or> sublist d vt)
                             (map canon opts))"
  by (simp add: resolve_visa_type_def Let_def dict_has_def first_key_match_find
        first_label_match_find split: option.splits)

text \<open>
  C3, as the specification words it, fails: the input \<open>tour\<close> is contained in the key
  \<open>tourist\<close>, so the worded ladder returns that key, but the code tests whether the key is
  contained in the input and finds no match.
\<close>

theorem resolve_visa_type_ladder_counterexample:
  "resolve_visa_type_spec ''tour'' [(''tourist'', [(''response'', ''Tourist info'')])] []
     = Some ''tourist''
   \<and> resolve_visa_type ''tour'' [(''tourist'', [(''response'', ''Tourist info'')])] [] = None"
  by code_simp

text \<open>
  C8: inputs with equal canonical forms resolve alike, whatever the visa types and the
  display options are; the three spellings of visa on arrival resolve alike.
\<close>

theorem resolve_visa_type_insensitive:
  "(canon a = canon b \<longrightarrow>
      resolve_visa_type a vts opts
        = resolve_visa_type b vts opts)
   \<and> resolve_visa_type ''Visa On Arrival'' vts opts
        = resolve_visa_type ''visaonarrival'' vts opts
   \<and> resolve_visa_type ''visa-on-arrival'' vts opts
        = resolve_visa_type ''visaonarrival'' vts opts"
proof -
  have c1: "canon ''Visa On Arrival'' = canon ''visaonarrival''" by code_simp
  have c2: "canon ''visa-on-arrival'' = canon ''visaonarrival''" by code_simp
  show ?thesis by (simp add: resolve_visa_type_def c1 c2)
qed

theorem resolve_visa_type_insensitive_witness:
  "canon ''Tourist Visa'' = canon ''tourist_visa''
   \<and> resolve_visa_type ''Tourist Visa'' (visa_types sample_env) (display_options sample_env)
        = resolve_visa_type ''tourist_visa'' (visa_types sample_env) (display_options sample_env)
   \<and> resolve_visa_type ''Visa On Arrival'' (visa_types sample_env) (display_options sample_env)
        = Some ''visaonarrival''
   \<and> resolve_visa_type ''visa-on-arrival'' (visa_types sample_env) (display_options sample_env)
        = Some ''visaonarrival''"
proof -
  have h: "canon ''Tourist Visa'' = canon ''tourist_visa''" by code_simp
  have v: "resolve_visa_type ''visaonarrival'' (visa_types sample_env) (display_options sample_env)
             = Some ''visaonarrival''" by code_simp
  from resolve_visa_type_insensitive
         [of "''Tourist Visa''" "''tourist_visa''" "visa_types sample_env" "display_options sample_env"]
       h v
  show ?thesis by simp
qed

section \<open>The handlers, case by case\<close>

lemma submit_handle_text:
  "strip u \<noteq> [] \<Longrightarrow> submit fmt E s u = handle_text fmt E s (strip u)"
  by (simp add: submit_def Let_def)



lemma web_farewell:
  assumes "is_farewell txt" and "\<not> is_thanks txt" and "prompts E ''goodbye'' = Some goodbye"
  shows "handle_text fmt E s txt =
           Done (s\<lparr>history := history s @ [(You, txt), (Bot, goodbye)], state := END\<rparr>)"
  using assms by (simp add: handle_text_def Let_def say_def)

lemma cli_farewell:
  "is_farewell (strip u) \<Longrightarrow>
     respond self u = (self, Inr (cli_prompt self ''goodbye'' cli_default_goodbye))"
  by (simp add: respond_def Let_def)

lemma web_same_country:
  assumes "state s = ASK_VISA_TYPE" and "current_country s = Some (title c)"
    and "truthy (find_country E txt) = Some c"
    and "\<not> is_thanks txt" and "\<not> is_farewell txt"
  shows "handle_text fmt E s txt =
           Done (s\<lparr>history := history s
                     @ [(You, txt), (Bot, nudge (title c) (options_str_display E))]\<rparr>)"
  using assms by (simp add: handle_text_def Let_def say_def canon_title)

lemma web_fallback_visa_type:
  assumes "state s = ASK_VISA_TYPE" and "\<not> is_thanks txt" and "\<not> is_farewell txt"
    and "truthy (find_country E txt) = None" and "lookup_details E txt = None"
  shows "handle_text fmt E s txt =
           Done (s\<lparr>history := history s @ [(You, txt), (Bot, fallback_visa_type_reply E txt)]\<rparr>)"
  using assms by (simp add: handle_text_def Let_def say_def answer_visa_type_def)

lemma cli_end:
  assumes "self_state self = END" and "\<not> is_farewell (strip u)"
  shows "respond self u =
     (if is_affirmative (strip u)
      then (self\<lparr>self_state := ASK_COUNTRY\<rparr>,
            Inr (cli_prompt self ''ask_country'' cli_default_ask_country))
      else (self, Inr (cli_prompt self ''goodbye'' cli_default_goodbye)))"
  using assms by (simp add: respond_def Let_def)

lemma web_end_unmatched:
  assumes "state s = END" and "\<not> is_thanks txt" and "\<not> is_farewell txt"
    and "\<not> is_greeting txt" and "truthy (find_country E txt) = None"
  shows "handle_text fmt E s txt =
           Done (s\<lparr>history := history s
                     @ [(You, txt), (Bot, prompt_or E ''fallback_country'' default_fallback_country)],
                   state := ASK_COUNTRY\<rparr>)"
  using assms by (simp add: handle_text_def Let_def say_def)

lemma cli_option:
  assumes "self_state self = ASK_VISA_TYPE" and "contains (lower (strip u)) ''option''"
    and "\<not> is_farewell (strip u)"
  shows "respond self u = (self, Inr (''Available visa types: '' @ self_opts self))"
  using assms by (simp add: respond_def Let_def)

section \<open>The sample conversation, evaluated\<close>


lemma sample_asking_eval:
  "sample_asking = \<lparr> state = ASK_VISA_TYPE,
                      history = [(Bot, ''Welcome''), (Bot, ''Which country?''), (You, ''Iran''),
                                 (Bot, ''For Iran, Which visa type? (Tourist, Business, Student, Visa on Arrival)'')],
                      current_country = Some ''Iran'', last_downloadable = [],
                      analytics_countries = [''iran''], analytics_visa_required = 1,
                      analytics_visa_free = 0 \<rparr>"
  by code_simp

lemma sample_ended_eval:
  "sample_ended = \<lparr> state = END,
                     history = [(Bot, ''Welcome''), (Bot, ''Which country?''), (You, ''Ghana''),
                                (Bot, ''For Ghana, no visa needed.'')],
                     current_country = Some ''Ghana'', last_downloadable = [],
                     analytics_countries = [''ghana''], analytics_visa_required = 0,
                     analytics_visa_free = 1 \<rparr>"
  by code_simp

section \<open>C1: a country query in state \<open>ASK_COUNTRY\<close>\<close>




section \<open>C2: farewells\<close>

text \<open>
  C2, as the code has it. Web application: in every state, a text that matches the
  farewell pattern and not the thanks pattern is answered with the configured goodbye
  text, and the state becomes \<open>END\<close>. Command line: an input that matches the farewell
  pattern is answered with the goodbye text (the configured one, or the built-in one).
\<close>

theorem farewell_goodbye:
  "(is_farewell txt \<and> \<not> is_thanks txt \<and> prompts E ''goodbye'' = Some goodbye
    \<longrightarrow> handle_text fmt E s txt =
          Done (s\<lparr>history := history s @ [(You, txt), (Bot, goodbye)], state := END\<rparr>))
   \<and> (is_farewell (strip u)
      \<longrightarrow> snd (respond self u) = Inr (cli_prompt self ''goodbye'' cli_default_goodbye))"
  using web_farewell cli_farewell by simp

theorem farewell_goodbye_witness:
  "is_farewell ''See you later!'' \<and> \<not> is_thanks ''See you later!''
   \<and> prompts sample_env ''goodbye'' = Some ''Goodbye!''
   \<and> handle_text format_options sample_env sample_asking ''See you later!'' =
        Done (sample_asking\<lparr>history := history sample_asking
                                @ [(You, ''See you later!''), (Bot, ''Goodbye!'')],
                             state := END\<rparr>)
   \<and> is_farewell (strip '' quit '')
   \<and> snd (respond sample_cli '' quit '') = Inr ''Goodbye!''"
proof -
  have web: "is_farewell ''See you later!'' \<and> \<not> is_thanks ''See you later!''
             \<and> prompts sample_env ''goodbye'' = Some ''Goodbye!''"
    by code_simp
  have cli: "is_farewell (strip '' quit '')"
    by code_simp
  have bye: "cli_prompt sample_cli ''goodbye'' cli_default_goodbye = ''Goodbye!''"
    by code_simp
  from farewell_goodbye
         [of "''See you later!''" sample_env "''Goodbye!''" format_options sample_asking
             "'' quit ''" sample_cli]
       web cli bye
  show ?thesis by simp
qed

text \<open>
  C2, as the specification words it, fails twice. In the web application \<open>thanks, bye\<close>
  matches the farewell pattern, but the thanks pattern is tested first and the reply is
  the acknowledgement, not the goodbye text. On the command line \<open>bye\<close> is answered with
  the goodbye text, but the state is left as it was, \<open>ASK_COUNTRY\<close>.
\<close>

theorem farewell_goodbye_counterexample:
  "is_farewell ''thanks, bye''
   \<and> prompts sample_env ''goodbye'' = Some ''Goodbye!''
   \<and> handle_text format_options sample_env sample_start ''thanks, bye'' =
        Done \<lparr> state = END,
               history = [(Bot, ''Welcome''), (Bot, ''Which country?''),
                          (You, ''thanks, bye''), (Bot, thanks_reply)],
               current_country = None, last_downloadable = [],
               analytics_countries = [], analytics_visa_required = 0,
               analytics_visa_free = 0 \<rparr>
   \<and> thanks_reply \<noteq> ''Goodbye!''
   \<and> is_farewell (strip ''bye'')
   \<and> self_state sample_cli = ASK_COUNTRY
   \<and> snd (respond sample_cli ''bye'') = Inr ''Goodbye!''
   \<and> self_state (fst (respond sample_cli ''bye'')) = ASK_COUNTRY"
  by code_simp

section \<open>C4: the same country again\<close>

text \<open>
  C4, as the code has it, in the web application: in state \<open>ASK_VISA_TYPE\<close>, with the
  current country set from the country \<open>c\<close>, a text that matches neither the thanks nor
  the farewell pattern and on which the country lookup finds \<open>c\<close> again is answered with
  the nudge; the state and the current country do not change.
\<close>

theorem same_country_nudge:
  "state s = ASK_VISA_TYPE \<and> current_country s = Some (title c)
   \<and> truthy (find_country E txt) = Some c \<and> \<not> is_thanks txt \<and> \<not> is_farewell txt
   \<longrightarrow> handle_text fmt E s txt =
         Done (s\<lparr>history := history s
                   @ [(You, txt), (Bot, nudge (title c) (options_str_display E))]\<rparr>)"
  using web_same_country by blast

theorem same_country_nudge_witness:
  "state sample_asking = ASK_VISA_TYPE \<and> current_country sample_asking = Some (title ''iran'')
   \<and> truthy (find_country sample_env ''IRAN, I said'') = Some ''iran''
   \<and> \<not> is_thanks ''IRAN, I said'' \<and> \<not> is_farewell ''IRAN, I said''
   \<and> session_of (handle_text format_options sample_env sample_asking ''IRAN, I said'') =
        sample_asking\<lparr>history := history sample_asking
                          @ [(You, ''IRAN, I said''),
                             (Bot, nudge ''Iran'' ''Tourist, Business, Student, Visa on Arrival'')]\<rparr>"
proof -
  have hyp: "state sample_asking = ASK_VISA_TYPE
             \<and> current_country sample_asking = Some (title ''iran'')
             \<and> truthy (find_country sample_env ''IRAN, I said'') = Some ''iran''
             \<and> \<not> is_thanks ''IRAN, I said'' \<and> \<not> is_farewell ''IRAN, I said''"
    by code_simp
  have ev: "title ''iran'' = ''Iran''"
           "options_str_display sample_env = ''Tourist, Business, Student, Visa on Arrival''"
    by code_simp+
  from same_country_nudge
         [of sample_asking "''iran''" sample_env "''IRAN, I said''" format_options]
       hyp
  have "handle_text format_options sample_env sample_asking ''IRAN, I said'' =
          Done (sample_asking\<lparr>history := history sample_asking
                   @ [(You, ''IRAN, I said''),
                      (Bot, nudge (title ''iran'') (options_str_display sample_env))]\<rparr>)"
    by blast
  with hyp show ?thesis by (simp add: ev)
qed

text \<open>
  C4, as the specification words it, fails. The command line has no country test in state
  \<open>ASK_VISA_TYPE\<close>: \<open>iran\<close> is looked up as a visa type, the state becomes \<open>END\<close> and the
  reply is the visa-type fallback. In the web application \<open>thanks, iran\<close> matches the
  current country, but the thanks pattern is answered first and the state becomes \<open>END\<close>.
\<close>

theorem same_country_nudge_counterexample:
  "self_state sample_cli_asking = ASK_VISA_TYPE
   \<and> dict_get (self_country_map sample_cli_asking) ''iran'' = Some True
   \<and> self_state (fst (respond sample_cli_asking ''iran'')) = END
   \<and> snd (respond sample_cli_asking ''iran'') = Inr ''Unknown visa type''
   \<and> state sample_asking = ASK_VISA_TYPE \<and> current_country sample_asking = Some ''Iran''
   \<and> truthy (find_country sample_env ''thanks, iran'') = Some ''iran''
   \<and> state (session_of (handle_text format_options sample_env sample_asking ''thanks, iran''))
        = END"
  by code_simp

section \<open>C5: an input that is neither a visa type nor a country\<close>

text \<open>
  In the web application, once the thanks and farewell checks have not fired, a text in
  state \<open>ASK_VISA_TYPE\<close> that matches no country and resolves to no visa type with details
  is answered with the \<open>fallback_visa_type\<close> text and the state stays \<open>ASK_VISA_TYPE\<close>:
  lemma \<open>web_fallback_visa_type\<close> above. The command line gives the same kind of reply,
  but \<open>self.state = 'END'\<close> is assigned before the details are tested, so the state does
  not stay.
\<close>

lemma cli_unresolved_visa_type:
  assumes "self_state self = ASK_VISA_TYPE" and "\<not> is_farewell (strip u)"
    and "\<not> contains (lower (strip u)) ''option''"
    and "dict_get (self_visa_type_map self) (lower (strip u)) = None"
  shows "respond self u =
           (self\<lparr>self_state := END\<rparr>,
            Inr (cli_prompt self ''fallback_visa_type''
                   (default_fallback_visa_type (strip u) (self_opts self))))"
  using assms by (simp add: respond_def Let_def)

text \<open>
  C5 says that in state \<open>ASK_VISA_TYPE\<close> an input that resolves to no known visa type and
  matches no country is answered with the \<open>fallback_visa_type\<close> text and leaves the state
  at \<open>ASK_VISA_TYPE\<close>. It fails on the command line: \<open>diplomatic\<close> is no farewell, no
  visa type and no country of the sample configuration; the reply is the fallback text,
  but the state becomes \<open>END\<close>, and the visa type \<open>tourist\<close> typed next is answered with
  the goodbye text. The web application answers \<open>diplomatic\<close> with the same fallback text
  and stays in \<open>ASK_VISA_TYPE\<close>.
\<close>

theorem cli_unresolved_visa_type_ends:
  "self_state sample_cli_asking = ASK_VISA_TYPE
   \<and> \<not> is_farewell ''diplomatic''
   \<and> dict_get (self_visa_type_map sample_cli_asking) ''diplomatic'' = None
   \<and> dict_get (self_country_map sample_cli_asking) ''diplomatic'' = None
   \<and> snd (respond sample_cli_asking ''diplomatic'') = Inr ''Unknown visa type''
   \<and> self_state (fst (respond sample_cli_asking ''diplomatic'')) = END
   \<and> dict_get (self_visa_type_map sample_cli_asking) ''tourist''
        = Some [(''response'', ''Tourist info'')]
   \<and> snd (respond (fst (respond sample_cli_asking ''diplomatic'')) ''tourist'')
        = Inr ''Goodbye!''
   \<and> state sample_asking = ASK_VISA_TYPE
   \<and> \<not> is_thanks ''diplomatic''
   \<and> truthy (find_country sample_env ''diplomatic'') = None
   \<and> lookup_details sample_env ''diplomatic'' = None
   \<and> handle_text format_options sample_env sample_asking ''diplomatic'' =
        Done \<lparr> state = ASK_VISA_TYPE,
               history = [(Bot, ''Welcome''), (Bot, ''Which country?''), (You, ''Iran''),
                          (Bot, ''For Iran, Which visa type? (Tourist, Business, Student, Visa on Arrival)''),
                          (You, ''diplomatic''), (Bot, ''Unknown visa type'')],
               current_country = Some ''Iran'', last_downloadable = [],
               analytics_countries = [''iran''], analytics_visa_required = 1,
               analytics_visa_free = 0 \<rparr>"
  by code_simp

section \<open>C6: exceptions\<close>

text \<open>The country that the lookup finds is a key of the country map, so
  \<open>country_map[found]\<close> does not raise.\<close>

lemma dict_has_get: "dict_has d k \<Longrightarrow> \<exists>v. dict_get d k = Some v"
  by (cases "map_of d k")
     (auto simp: dict_has_def dict_keys_def dict_get_def map_of_eq_None_iff)

lemma first_country_key: "first_country low ks = Some c \<Longrightarrow> c \<in> set ks"
  by (induction ks) (auto split: if_splits)

lemma find_country_key: "find_country E txt = Some c \<Longrightarrow> dict_has (country_map E) c"
  by (auto simp: find_country_def Let_def match_country_def dict_has_def
           dest: first_country_key split: if_splits)

lemma truthy_find_country_get:
  "truthy (find_country E txt) = Some c \<Longrightarrow> \<exists>v. dict_get (country_map E) c = Some v"
  by (auto simp: truthy_def intro: dict_has_get find_country_key split: option.splits if_splits)

text \<open>
  The web handler raises only where it reads a prompt without a default or formats the
  ask-visa-type template: with the prompts \<open>goodbye\<close> and \<open>ask_country\<close> configured and a
  template that formats, every text in every state is answered. An entry without
  \<open>response\<close> is read with \<open>get\<close>, and its section is left out of the reply.
\<close>

lemma answer_country_done:
  assumes "ask_text fmt E = Inr ask" and "dict_get (country_map E) c = Some v"
  shows "\<exists>s'. answer_country fmt E s c = Done s'"
  using assms by (simp add: answer_country_def Let_def)

lemma handle_text_done:
  assumes "prompts E ''goodbye'' = Some g" and "prompts E ''ask_country'' = Some a"
    and "ask_text fmt E = Inr ask"
  shows "\<exists>s'. handle_text fmt E s txt = Done s'"
proof (cases "truthy (find_country E txt)")
  case None
  with assms show ?thesis
    by (simp add: handle_text_def Let_def)
next
  case (Some c)
  from truthy_find_country_get[OF Some] obtain v
    where v: "dict_get (country_map E) c = Some v" by blast
  from answer_country_done[OF assms(3) v] have "\<And>s0. \<exists>s'. answer_country fmt E s0 c = Done s'" .
  with assms Some show ?thesis
    by (simp add: handle_text_def Let_def)
qed

lemma specific_md_no_response: "dict_get details ''response'' = None \<Longrightarrow> specific_md k details = []"
  by (simp add: specific_md_def truthy_response_def)

text \<open>
  C6 fails on the command line: the visa type \<open>business\<close> of the sample configuration has
  fields but no \<open>response\<close>; in state \<open>ASK_VISA_TYPE\<close> the input \<open>business\<close> finds the entry,
  the state is set to \<open>END\<close> and \<open>details['response']\<close> raises \<open>KeyError\<close>. The web
  application answers the same input with the general requirements alone.
\<close>

theorem cli_missing_response_raises:
  "self_state sample_cli_asking = ASK_VISA_TYPE
   \<and> dict_get (self_visa_type_map sample_cli_asking) ''business'' = Some [(''fee'', ''100'')]
   \<and> snd (respond sample_cli_asking ''business'') = Inl KeyError
   \<and> self_state (fst (respond sample_cli_asking ''business'')) = END
   \<and> state (session_of (handle_text format_options sample_env sample_asking ''business'')) = END
   \<and> last (history (session_of (handle_text format_options sample_env sample_asking ''business'')))
        = (Bot, ''**For Iran '' @ em_dash @ '' here are the requirements:**'' @ newline
                @ ''##### General requirements'' @ newline @ ''Passport'')"
  by code_simp

section \<open>C7: the follow-up in state \<open>END\<close>\<close>

text \<open>
  C7, as the code has it. Command line: in state \<open>END\<close>, an input that does not match the
  farewell pattern is answered with the ask-country prompt, and the state becomes
  \<open>ASK_COUNTRY\<close>, if it matches the affirmative pattern; otherwise it is answered with
  the goodbye text and the state stays \<open>END\<close>. The web application has no affirmative
  pattern and handles \<open>END\<close> in the branch of \<open>ASK_COUNTRY\<close>: a text that matches none of
  the thanks, farewell and greeting patterns and no country is answered with the
  \<open>fallback_country\<close> text, and the state becomes \<open>ASK_COUNTRY\<close>.
\<close>

theorem end_state_follow_up:
  "(self_state self = END \<and> \<not> is_farewell (strip u)
    \<longrightarrow> respond self u =
         (if is_affirmative (strip u)
          then (self\<lparr>self_state := ASK_COUNTRY\<rparr>,
                Inr (cli_prompt self ''ask_country'' cli_default_ask_country))
          else (self, Inr (cli_prompt self ''goodbye'' cli_default_goodbye))))
   \<and> (state s = END \<and> \<not> is_thanks txt \<and> \<not> is_farewell txt \<and> \<not> is_greeting txt
        \<and> truthy (find_country E txt) = None
      \<longrightarrow> handle_text fmt E s txt =
           Done (s\<lparr>history := history s
                     @ [(You, txt),
                        (Bot, prompt_or E ''fallback_country'' default_fallback_country)],
                   state := ASK_COUNTRY\<rparr>))"
  using cli_end web_end_unmatched by blast

theorem end_state_follow_up_witness:
  "self_state sample_cli_ended = END \<and> \<not> is_farewell (strip ''Yes, please'')
   \<and> is_affirmative (strip ''Yes, please'')
   \<and> self_state (fst (respond sample_cli_ended ''Yes, please'')) = ASK_COUNTRY
   \<and> snd (respond sample_cli_ended ''Yes, please'') = Inr ''Which country?''
   \<and> state sample_ended = END \<and> \<not> is_thanks ''maybe'' \<and> \<not> is_farewell ''maybe''
   \<and> \<not> is_greeting ''maybe'' \<and> truthy (find_country sample_env ''maybe'') = None
   \<and> session_of (handle_text format_options sample_env sample_ended ''maybe'') =
        sample_ended\<lparr>history := history sample_ended
                         @ [(You, ''maybe''), (Bot, ''Unknown country'')],
                      state := ASK_COUNTRY\<rparr>"
proof -
  have cli: "self_state sample_cli_ended = END \<and> \<not> is_farewell (strip ''Yes, please'')"
    by code_simp
  have yes: "is_affirmative (strip ''Yes, please'')"
    by code_simp
  have web: "state sample_ended = END \<and> \<not> is_thanks ''maybe'' \<and> \<not> is_farewell ''maybe''
             \<and> \<not> is_greeting ''maybe'' \<and> truthy (find_country sample_env ''maybe'') = None"
    by code_simp
  have ev: "cli_prompt sample_cli_ended ''ask_country'' cli_default_ask_country = ''Which country?''"
           "prompt_or sample_env ''fallback_country'' default_fallback_country = ''Unknown country''"
    by code_simp+
  from end_state_follow_up
         [of sample_cli_ended "''Yes, please''" sample_ended "''maybe''" sample_env format_options]
       cli yes web
  have "respond sample_cli_ended ''Yes, please'' =
          (sample_cli_ended\<lparr>self_state := ASK_COUNTRY\<rparr>,
           Inr (cli_prompt sample_cli_ended ''ask_country'' cli_default_ask_country))"
    and "handle_text format_options sample_env sample_ended ''maybe'' =
           Done (sample_ended\<lparr>history := history sample_ended
                     @ [(You, ''maybe''),
                        (Bot, prompt_or sample_env ''fallback_country'' default_fallback_country)],
                   state := ASK_COUNTRY\<rparr>)"
    by simp_all
  with cli yes web show ?thesis by (simp add: ev)
qed

text \<open>
  C7, as the specification words it, fails in the web application: in state \<open>END\<close> the
  affirmative \<open>yes\<close> is answered with the \<open>fallback_country\<close> text, not with the
  ask-country prompt, and \<open>maybe\<close>, neither a farewell nor an affirmative, is answered
  with the same text and moves the state to \<open>ASK_COUNTRY\<close>.
\<close>

theorem end_state_follow_up_counterexample:
  "state sample_ended = END
   \<and> is_affirmative ''yes''
   \<and> prompts sample_env ''ask_country'' = Some ''Which country?''
   \<and> last (history (session_of (handle_text format_options sample_env sample_ended ''yes'')))
        = (Bot, ''Unknown country'')
   \<and> \<not> is_farewell ''maybe'' \<and> \<not> is_affirmative ''maybe''
   \<and> prompts sample_env ''goodbye'' = Some ''Goodbye!''
   \<and> last (history (session_of (handle_text format_options sample_env sample_ended ''maybe'')))
        = (Bot, ''Unknown country'')
   \<and> state (session_of (handle_text format_options sample_env sample_ended ''maybe''))
        = ASK_COUNTRY"
  by code_simp

section \<open>C10: asking for the options on the command line\<close>

text \<open>
  C10, as the code has it: on the command line, in state \<open>ASK_VISA_TYPE\<close>, an input that
  contains \<open>option\<close> once stripped and lower-cased, and that does not match the farewell
  pattern, is answered with the list of visa types; the object does not change, and the
  visa-type map is not consulted.
\<close>

theorem cli_options_listed:
  "self_state self = ASK_VISA_TYPE \<and> contains (lower (strip u)) ''option''
   \<and> \<not> is_farewell (strip u)
   \<longrightarrow> respond self u = (self, Inr (''Available visa types: '' @ self_opts self))"
  using cli_option by blast

theorem cli_options_listed_witness:
  "self_state sample_cli_asking = ASK_VISA_TYPE
   \<and> contains (lower (strip ''What are my OPTIONS?'')) ''option''
   \<and> \<not> is_farewell (strip ''What are my OPTIONS?'')
   \<and> self_state (fst (respond sample_cli_asking ''What are my OPTIONS?'')) = ASK_VISA_TYPE
   \<and> snd (respond sample_cli_asking ''What are my OPTIONS?'')
        = Inr ''Available visa types: Tourist, Business, Student''"
proof -
  have hyp: "self_state sample_cli_asking = ASK_VISA_TYPE
             \<and> contains (lower (strip ''What are my OPTIONS?'')) ''option''
             \<and> \<not> is_farewell (strip ''What are my OPTIONS?'')"
    by code_simp
  have ev: "self_opts sample_cli_asking = ''Tourist, Business, Student''"
    by code_simp
  from cli_options_listed [of sample_cli_asking "''What are my OPTIONS?''"] hyp
  have "respond sample_cli_asking ''What are my OPTIONS?''
          = (sample_cli_asking, Inr (''Available visa types: '' @ self_opts sample_cli_asking))"
    by blast
  with hyp show ?thesis by (simp add: ev)
qed

text \<open>
  C10, as it is worded, fails: the farewell test comes before the state is looked at, so
  \<open>no more options, bye\<close> contains \<open>option\<close> and is answered with the goodbye text.
\<close>

theorem cli_options_listed_counterexample:
  "self_state sample_cli_asking = ASK_VISA_TYPE
   \<and> contains (lower (strip ''no more options, bye'')) ''option''
   \<and> snd (respond sample_cli_asking ''no more options, bye'') = Inr ''Goodbye!''"
  by code_simp

section \<open>C9: in state \<open>ASK_VISA_TYPE\<close> the current country is set\<close>

lemma say_fields [simp]:
  "state (say w m s) = state s" "current_country (say w m s) = current_country s"
  by (simp_all add: say_def)

lemma answer_country_sets:
  "current_country (session_of (answer_country fmt E s found)) = Some (title found)"
  by (simp add: answer_country_def Let_def split: option.splits sum.splits)

lemma answer_visa_type_country:
  "current_country (answer_visa_type E s txt) = current_country s"
  by (simp add: answer_visa_type_def Let_def split: option.splits prod.splits)

lemma answer_visa_type_state:
  "state (answer_visa_type E s txt) = ASK_VISA_TYPE \<Longrightarrow> state s = ASK_VISA_TYPE"
  by (simp add: answer_visa_type_def Let_def split: option.splits prod.splits)

text \<open>A typed text that leaves the session in state \<open>ASK_VISA_TYPE\<close> has either set the
  current country from the country it matched, or found the session in that state and
  kept its current country.\<close>

lemma handle_text_step:
  assumes "state (session_of (handle_text fmt E s txt)) = ASK_VISA_TYPE"
  shows "(\<exists>c. truthy (find_country E txt) = Some c
              \<and> current_country (session_of (handle_text fmt E s txt)) = Some (title c))
         \<or> (state s = ASK_VISA_TYPE
              \<and> current_country (session_of (handle_text fmt E s txt)) = current_country s)"
proof (cases "is_thanks txt \<or> is_farewell txt")
  case True
  with assms show ?thesis
    by (auto simp: handle_text_def Let_def split: option.splits if_splits)
next
  case False
  note plain = this
  show ?thesis
  proof (cases "truthy (find_country E txt)")
    case None
    with assms plain show ?thesis
      by (cases "state s")
         (auto simp: handle_text_def Let_def answer_visa_type_country
               dest: answer_visa_type_state split: option.splits if_splits)
  next
    case (Some c)
    with assms plain show ?thesis
      by (cases "state s")
         (auto simp: handle_text_def Let_def answer_country_sets split: option.splits if_splits)
  qed
qed

lemma submit_step:
  assumes "state (session_of (submit fmt E s u)) = ASK_VISA_TYPE"
  shows "(\<exists>c. truthy (find_country E (strip u)) = Some c
              \<and> current_country (session_of (submit fmt E s u)) = Some (title c))
         \<or> (state s = ASK_VISA_TYPE
              \<and> current_country (session_of (submit fmt E s u)) = current_country s)"
proof (cases "strip u = []")
  case True
  with assms show ?thesis by (simp add: submit_def)
next
  case False
  with assms handle_text_step[of fmt E s "strip u"] show ?thesis
    by (simp add: submit_def)
qed

lemma click_chip_step:
  assumes "state (click_chip E s label) = ASK_VISA_TYPE"
  shows "state s = ASK_VISA_TYPE \<and> current_country (click_chip E s label) = current_country s"
  using assms
  by (auto simp: click_chip_def answer_visa_type_country dest: answer_visa_type_state
           split: if_splits)

lemma reset_chat_state: "state (session_of (reset_chat E s)) = ASK_COUNTRY"
  by (simp add: reset_chat_def Let_def split: option.splits)

lemma submit_invariant:
  assumes "country_invariant s"
  shows "country_invariant (session_of (submit fmt E s u))"
proof (cases "state (session_of (submit fmt E s u)) = ASK_VISA_TYPE")
  case False
  then show ?thesis by (simp add: country_invariant_def)
next
  case True
  from submit_step[OF True] show ?thesis
  proof
    assume "\<exists>c. truthy (find_country E (strip u)) = Some c
              \<and> current_country (session_of (submit fmt E s u)) = Some (title c)"
    then show ?thesis
      by (auto simp: country_invariant_def has_country_def dest: truthy_Some)
  next
    assume "state s = ASK_VISA_TYPE
              \<and> current_country (session_of (submit fmt E s u)) = current_country s"
    with assms show ?thesis
      by (simp add: country_invariant_def has_country_def)
  qed
qed

lemma click_chip_invariant:
  assumes "country_invariant s"
  shows "country_invariant (click_chip E s label)"
proof (cases "state (click_chip E s label) = ASK_VISA_TYPE")
  case False
  then show ?thesis by (simp add: country_invariant_def)
next
  case True
  from click_chip_step[OF True] assms show ?thesis
    by (simp add: country_invariant_def has_country_def)
qed

lemma reachable_invariant: "reachable fmt E s \<Longrightarrow> country_invariant s"
proof (induction rule: reachable.induct)
  case start
  show ?case by (simp add: country_invariant_def reset_chat_state)
next
  case (typed s user_text)
  then show ?case by (simp add: submit_invariant)
next
  case (chip s label)
  then show ?case by (simp add: click_chip_invariant)
next
  case (new_chat s)
  show ?case by (simp add: country_invariant_def reset_chat_state)
qed

text \<open>
  C9: every session \<open>s\<close> reachable from the reset of a fresh session, by typed
  submissions, chip clicks and new chats, has a non-empty current country whenever its
  state is \<open>ASK_VISA_TYPE\<close>. And every step from any session \<open>r\<close> that ends in state
  \<open>ASK_VISA_TYPE\<close> has either just set the current country from the country that the
  submitted text matched, or started in \<open>ASK_VISA_TYPE\<close> and left the current country in
  place.
\<close>

theorem ask_visa_type_has_country:
  "(reachable fmt E s \<and> state s = ASK_VISA_TYPE
    \<longrightarrow> (\<exists>c. current_country s = Some c \<and> c \<noteq> []))
   \<and> (state (session_of (submit fmt E r u)) = ASK_VISA_TYPE
      \<longrightarrow> (\<exists>c. truthy (find_country E (strip u)) = Some c
               \<and> current_country (session_of (submit fmt E r u)) = Some (title c))
          \<or> (state r = ASK_VISA_TYPE
               \<and> current_country (session_of (submit fmt E r u)) = current_country r))
   \<and> (state (click_chip E r label) = ASK_VISA_TYPE
      \<longrightarrow> state r = ASK_VISA_TYPE
          \<and> current_country (click_chip E r label) = current_country r)"
proof (intro conjI impI)
  assume "reachable fmt E s \<and> state s = ASK_VISA_TYPE"
  with reachable_invariant[of fmt E s] show "\<exists>c. current_country s = Some c \<and> c \<noteq> []"
    by (auto simp: country_invariant_def has_country_def split: option.splits)
next
  assume "state (session_of (submit fmt E r u)) = ASK_VISA_TYPE"
  then show "(\<exists>c. truthy (find_country E (strip u)) = Some c
               \<and> current_country (session_of (submit fmt E r u)) = Some (title c))
          \<or> (state r = ASK_VISA_TYPE
               \<and> current_country (session_of (submit fmt E r u)) = current_country r)"
    by (rule submit_step)
next
  assume a: "state (click_chip E r label) = ASK_VISA_TYPE"
  from click_chip_step[OF a] show "state r = ASK_VISA_TYPE" ..
  from click_chip_step[OF a]
  show "current_country (click_chip E r label) = current_country r" ..
qed

theorem ask_visa_type_has_country_witness:
  "reachable format_options sample_env sample_asking
   \<and> state sample_asking = ASK_VISA_TYPE
   \<and> (\<exists>c. current_country sample_asking = Some c \<and> c \<noteq> [])
   \<and> state (session_of (submit format_options sample_env sample_start '' Iran '')) = ASK_VISA_TYPE
   \<and> state sample_start = ASK_COUNTRY
   \<and> current_country (session_of (submit format_options sample_env sample_start '' Iran ''))
        = Some (title ''iran'')
   \<and> state (click_chip sample_env sample_asking ''Student'') = ASK_VISA_TYPE
   \<and> current_country (click_chip sample_env sample_asking ''Student'')
        = current_country sample_asking"
proof -
  have "reachable format_options sample_env sample_start"
    unfolding sample_start_def by (rule reachable.start)
  then have reach: "reachable format_options sample_env sample_asking"
    unfolding sample_asking_def by (rule reachable.typed)
  have st: "state sample_asking = ASK_VISA_TYPE"
    by code_simp
  have typed: "state (session_of (submit format_options sample_env sample_start '' Iran ''))
                 = ASK_VISA_TYPE"
    by code_simp
  have start: "state sample_start = ASK_COUNTRY"
    by code_simp
  have found: "truthy (find_country sample_env (strip '' Iran '')) = Some ''iran''"
    by code_simp
  have clicked: "state (click_chip sample_env sample_asking ''Student'') = ASK_VISA_TYPE"
    by code_simp
  note inst = ask_visa_type_has_country
                [of format_options sample_env sample_asking sample_start "'' Iran ''"]
  from inst reach st have c1: "\<exists>c. current_country sample_asking = Some c \<and> c \<noteq> []"
    by blast
  from inst typed start found
  have c2: "current_country (session_of (submit format_options sample_env sample_start '' Iran ''))
              = Some (title ''iran'')"
    by auto
  from ask_visa_type_has_country
         [of format_options sample_env sample_asking sample_asking "''x''" "''Student''"]
       clicked
  have c3: "current_country (click_chip sample_env sample_asking ''Student'')
              = current_country sample_asking"
    by blast
  from reach st c1 typed start c2 clicked c3 show ?thesis by blast
qed

end
